theory Spec2Isabelle
  imports Main
begin

section \<open>Values of the bus library handled by the integration\<close>

text \<open>
  A telegram's destination is a group address, an internal group address or an individual
  address. Only the first two are group-addressable (the \<open>isinstance\<close> test of
  \<open>telegram_received_cb\<close>) and only they are keys of the transcoder mappings.
\<close>

datatype address = GroupAddress nat | InternalGroupAddress string | IndividualAddress nat

fun group_addressable :: "address \<Rightarrow> bool" where
  "group_addressable (GroupAddress _) = True"
| "group_addressable (InternalGroupAddress _) = True"
| "group_addressable (IndividualAddress _) = False"

text \<open>
  A Python value that is either an \<open>int\<close> or some other object (for a raw payload: a
  sequence of ints). The type \<open>'p\<close> stands for the objects that are not ints.
\<close>

datatype 'p py_value = PyInt int | PyOther 'p

text \<open>The two raw payload classes; \<open>dpt_value\<close> is their \<open>.value\<close> attribute.\<close>

datatype 'p dpt = DPTBinary int | DPTArray 'p

fun dpt_value :: "'p dpt \<Rightarrow> 'p py_value" where
  "dpt_value (DPTBinary n) = PyInt n"
| "dpt_value (DPTArray s) = PyOther s"

text \<open>
  The payload of a telegram. The value of a write or a response may be absent
  (\<open>telegram.payload.value is not None\<close> is tested by the code).
\<close>

datatype 'p apci =
    GroupValueRead
  | GroupValueWrite "'p dpt option"
  | GroupValueResponse "'p dpt option"
  | OtherAPCI string

fun write_or_response :: "'p apci \<Rightarrow> bool" where
  "write_or_response (GroupValueWrite _) = True"
| "write_or_response (GroupValueResponse _) = True"
| "write_or_response _ = False"

fun apci_value :: "'p apci \<Rightarrow> 'p dpt option" where
  "apci_value (GroupValueWrite v) = v"
| "apci_value (GroupValueResponse v) = v"
| "apci_value _ = None"

fun apci_class_name :: "'p apci \<Rightarrow> string" where
  "apci_class_name GroupValueRead = ''GroupValueRead''"
| "apci_class_name (GroupValueWrite _) = ''GroupValueWrite''"
| "apci_class_name (GroupValueResponse _) = ''GroupValueResponse''"
| "apci_class_name (OtherAPCI n) = n"

datatype direction = Incoming | Outgoing

fun direction_value :: "direction \<Rightarrow> string" where
  "direction_value Incoming = ''Incoming''"
| "direction_value Outgoing = ''Outgoing''"

record 'p telegram =
  destination_address :: address
  source_address :: address
  direction :: direction
  payload :: "'p apci"

text \<open>
  Exceptions. The first two are raised by the bus library's codecs, the next two by the
  integration's services, the two after them by Python itself; \<open>OtherException\<close> is
  any other exception class that no handler of the integration names.
\<close>

datatype exc =
    ConversionError string
  | CouldNotParseTelegram string
  | HomeAssistantError string
  | ServiceValidationError string
  | AttributeError string
  | ValueError string
  | OtherException string

text \<open>
  A transcoder is a codec class; it is represented by its name and its two class methods,
  \<open>from_knx\<close> and \<open>to_knx\<close>. Decoding and encoding either raise (\<open>Inl\<close>) or return
  (\<open>Inr\<close>).
\<close>

record ('p, 'v) transcoder =
  tc_name :: string
  from_knx :: "'p dpt \<Rightarrow> exc + 'v"
  to_knx :: "'p py_value \<Rightarrow> exc + 'p dpt"

text \<open>
  The attribute \<open>to_knx2\<close> that \<open>service_send_to_knx2_bus\<close> calls on the transcoder.
  The codec classes have no attribute of that name (the encoder is \<open>to_knx\<close>, as the
  decoder called by \<open>telegram_received_cb\<close> is \<open>from_knx\<close>), so the call raises
  \<open>AttributeError\<close> whatever the payload is.
\<close>

definition to_knx2 :: "('p, 'v) transcoder \<Rightarrow> 'p py_value \<Rightarrow> exc + 'p dpt" where
  "to_knx2 transcoder v = Inl (AttributeError ''to_knx2'')"

section \<open>The integration's state\<close>

text \<open>The dictionary fired as \<open>knx2_event\<close>; addresses stand for their string rendering.\<close>

record ('p, 'v) knx2_event =
  ev_data :: "'p py_value option"
  ev_destination :: address
  ev_direction :: string
  ev_value :: "'v option"
  ev_source :: address
  ev_telegramtype :: string

datatype ('p, 'v) bus_event = Knx2Event "('p, 'v) knx2_event" | ReloadedEvent

datatype ('p, 'e) log_record =
    WarnDecoding string "'p telegram" exc
  | WarnCouldNotRemoveEvent address
  | WarnReplacingExposure string 'e
  | DebugRegisteredEvent address
  | DebugRegisteredExposure string 'e

text \<open>Calls made on exposure objects, in the order they happen.\<close>

datatype 'e exposure_op = ExposureCreated 'e | ExposureRemoved 'e

text \<open>
  \<open>KNX2Module\<close>. The filter dictionary keeps its insertion order, which the scan in
  \<open>telegram_received_cb\<close> follows, so it is an association list; a filter is
  represented by its \<open>match\<close> method. \<open>event_group_addresses\<close> is the list
  \<open>knx2_event_callback.group_addresses\<close>, \<open>xknx_telegrams\<close> the outgoing queue
  \<open>xknx.telegrams\<close>.
\<close>

record ('p, 'v, 'e) knx2_module =
  service_exposures :: "string \<rightharpoonup> 'e"
  exposure_ops :: "'e exposure_op list"
  address_filter_transcoder :: "((address \<Rightarrow> bool) \<times> ('p, 'v) transcoder) list"
  group_address_transcoder :: "address \<rightharpoonup> ('p, 'v) transcoder"
  event_group_addresses :: "address list"
  xknx_telegrams :: "'p telegram list"
  xknx_current_address :: address

text \<open>
  \<open>HomeAssistant\<close>: the module stored under \<open>KNX2_MODULE_KEY\<close> in \<open>hass.data\<close> (absent
  while the integration is not loaded), the events fired on the bus and the log.
\<close>

record ('p, 'v, 'e) hass =
  data_knx2_module :: "('p, 'v, 'e) knx2_module option"
  bus_fired :: "('p, 'v) bus_event list"
  logger :: "('p, 'e) log_record list"

datatype outcome = Returned | Raised exc

definition async_fire ::
  "('p, 'v) bus_event \<Rightarrow> ('p, 'v, 'e) hass \<Rightarrow> ('p, 'v, 'e) hass" where
  "async_fire ev h = h\<lparr>bus_fired := bus_fired h @ [ev]\<rparr>"

definition log_record ::
  "('p, 'e) log_record \<Rightarrow> ('p, 'v, 'e) hass \<Rightarrow> ('p, 'v, 'e) hass" where
  "log_record r h = h\<lparr>logger := logger h @ [r]\<rparr>"

section \<open>Receiving a telegram\<close>

text \<open>
  The generator expression under \<open>next(..., None)\<close>: the transcoder of the first filter,
  in insertion order, that matches the address.
\<close>

fun next_filter_transcoder ::
  "((address \<Rightarrow> bool) \<times> ('p, 'v) transcoder) list \<Rightarrow> address \<Rightarrow> ('p, 'v) transcoder option" where
  "next_filter_transcoder [] a = None"
| "next_filter_transcoder ((f, tc) # rest) a =
     (if f a then Some tc else next_filter_transcoder rest a)"

text \<open>
  \<open>self.group_address_transcoder.get(dest) or next(...)\<close>. A transcoder is a class and
  so is truthy: \<open>or\<close> falls through to the filters only when \<open>get\<close> returns \<open>None\<close>.
\<close>

definition select_transcoder ::
  "('p, 'v, 'e) knx2_module \<Rightarrow> address \<Rightarrow> ('p, 'v) transcoder option" where
  "select_transcoder self a =
     (case group_address_transcoder self a of
        Some tc \<Rightarrow> Some tc
      | None \<Rightarrow> next_filter_transcoder (address_filter_transcoder self) a)"

definition make_event ::
  "'p telegram \<Rightarrow> 'p py_value option \<Rightarrow> 'v option \<Rightarrow> ('p, 'v) bus_event" where
  "make_event t d v = Knx2Event
     \<lparr>ev_data = d,
      ev_destination = destination_address t,
      ev_direction = direction_value (direction t),
      ev_value = v,
      ev_source = source_address t,
      ev_telegramtype = apci_class_name (payload t)\<rparr>"

text \<open>The \<open>except (ConversionError, CouldNotParseTelegram)\<close> clause.\<close>

fun caught_decoding :: "exc \<Rightarrow> bool" where
  "caught_decoding (ConversionError _) = True"
| "caught_decoding (CouldNotParseTelegram _) = True"
| "caught_decoding _ = False"

text \<open>
  \<open>KNX2Module.telegram_received_cb\<close>. An exception of the decoder that the
  \<open>except\<close> clause does not name leaves the function before the event is fired.
\<close>

definition telegram_received_cb ::
  "('p, 'v, 'e) knx2_module \<Rightarrow> 'p telegram \<Rightarrow> ('p, 'v, 'e) hass \<Rightarrow> outcome \<times> ('p, 'v, 'e) hass" where
  "telegram_received_cb self t h =
     (case (if write_or_response (payload t) \<and> group_addressable (destination_address t)
            then apci_value (payload t) else None) of
        None \<Rightarrow> (Returned, async_fire (make_event t None None) h)
      | Some pv \<Rightarrow>
          (case select_transcoder self (destination_address t) of
             None \<Rightarrow> (Returned, async_fire (make_event t (Some (dpt_value pv)) None) h)
           | Some tc \<Rightarrow>
               (case from_knx tc pv of
                  Inr v \<Rightarrow>
                    (Returned, async_fire (make_event t (Some (dpt_value pv)) (Some v)) h)
                | Inl err \<Rightarrow>
                    if caught_decoding err
                    then (Returned,
                          async_fire (make_event t (Some (dpt_value pv)) None)
                            (log_record (WarnDecoding (tc_name tc) t err) h))
                    else (Raised err, h))))"

section \<open>Services\<close>

text \<open>
  \<open>get_knx2_module\<close>: the \<open>KeyError\<close> of the lookup in \<open>hass.data\<close> is turned into a
  \<open>HomeAssistantError\<close>.
\<close>

definition get_knx2_module :: "('p, 'v, 'e) hass \<Rightarrow> exc + ('p, 'v, 'e) knx2_module" where
  "get_knx2_module h =
     (case data_knx2_module h of
        Some m \<Rightarrow> Inr m
      | None \<Rightarrow> Inl (HomeAssistantError ''KNX2 entry not loaded''))"

text \<open>The module is mutated in place: the updated module is what \<open>hass.data\<close> holds.\<close>

definition store_module ::
  "('p, 'v, 'e) knx2_module \<Rightarrow> ('p, 'v, 'e) hass \<Rightarrow> ('p, 'v, 'e) hass" where
  "store_module m h = h\<lparr>data_knx2_module := Some m\<rparr>"

subsection \<open>event_register\<close>

record event_register_call =
  er_address :: "string list"
  er_type :: "string option"
  er_remove :: bool

text \<open>
  The loop of the remove branch. \<open>list.remove\<close> deletes the first occurrence and raises
  \<open>ValueError\<close> when there is none, which is logged as a warning; the transcoder entry
  is deleted when there is one.
\<close>

fun remove_event_addresses ::
  "address list \<Rightarrow> ('p, 'v, 'e) knx2_module \<Rightarrow> ('p, 'v, 'e) hass \<Rightarrow>
     ('p, 'v, 'e) knx2_module \<times> ('p, 'v, 'e) hass" where
  "remove_event_addresses [] m h = (m, h)"
| "remove_event_addresses (ga # gas) m h =
     (let (m1, h1) =
            (if ga \<in> set (event_group_addresses m)
             then (m\<lparr>event_group_addresses := remove1 ga (event_group_addresses m)\<rparr>, h)
             else (m, log_record (WarnCouldNotRemoveEvent ga) h));
          m2 = (case group_address_transcoder m1 ga of
                  Some _ \<Rightarrow> m1\<lparr>group_address_transcoder := (group_address_transcoder m1)(ga := None)\<rparr>
                | None \<Rightarrow> m1)
      in remove_event_addresses gas m2 h1)"

text \<open>The loop of the register branch: an address already in the list is skipped.\<close>

fun add_event_addresses ::
  "address list \<Rightarrow> ('p, 'v, 'e) knx2_module \<Rightarrow> ('p, 'v, 'e) hass \<Rightarrow>
     ('p, 'v, 'e) knx2_module \<times> ('p, 'v, 'e) hass" where
  "add_event_addresses [] m h = (m, h)"
| "add_event_addresses (ga # gas) m h =
     (if ga \<in> set (event_group_addresses m)
      then add_event_addresses gas m h
      else add_event_addresses gas
             (m\<lparr>event_group_addresses := event_group_addresses m @ [ga]\<rparr>)
             (log_record (DebugRegisteredEvent ga) h))"

text \<open>
  \<open>service_event_register_modify\<close>. \<open>parse_transcoder\<close> and
  \<open>parse_device_group_address\<close> belong to the bus library and are parameters; the
  service's schema has validated the addresses. An empty type string is falsy.
\<close>

definition service_event_register_modify ::
  "(string \<Rightarrow> ('p, 'v) transcoder option) \<Rightarrow> (string \<Rightarrow> address) \<Rightarrow>
     event_register_call \<Rightarrow> ('p, 'v, 'e) hass \<Rightarrow> outcome \<times> ('p, 'v, 'e) hass" where
  "service_event_register_modify parse_transcoder parse_device_group_address call h =
     (case get_knx2_module h of
        Inl err \<Rightarrow> (Raised err, h)
      | Inr m \<Rightarrow>
          (let group_addresses = map parse_device_group_address (er_address call) in
           if er_remove call
           then (let (m', h') = remove_event_addresses group_addresses m h
                 in (Returned, store_module m' h'))
           else
             (let m1 =
                    (case er_type call of
                       None \<Rightarrow> m
                     | Some dpt \<Rightarrow>
                         if dpt = [] then m
                         else (case parse_transcoder dpt of
                                 None \<Rightarrow> m
                               | Some tc \<Rightarrow>
                                   m\<lparr>group_address_transcoder :=
                                        group_address_transcoder m ++
                                        map_of (map (\<lambda>a. (a, tc)) group_addresses)\<rparr>));
                  (m', h') = add_event_addresses group_addresses m1 h
              in (Returned, store_module m' h'))))"

subsection \<open>exposure_register\<close>

record 'c exposure_call =
  ex_address :: string
  ex_remove :: bool
  ex_config :: 'c

definition quoted :: "string \<Rightarrow> string" where
  "quoted s = [CHR 0x27] @ s @ [CHR 0x27]"

text \<open>
  \<open>service_exposure_register_modify\<close>. \<open>create_knx2_exposure\<close> builds the exposure
  from the call's data and is a parameter.
\<close>

definition service_exposure_register_modify ::
  "('c exposure_call \<Rightarrow> 'e) \<Rightarrow> 'c exposure_call \<Rightarrow> ('p, 'v, 'e) hass \<Rightarrow>
     outcome \<times> ('p, 'v, 'e) hass" where
  "service_exposure_register_modify create_knx2_exposure call h =
     (case get_knx2_module h of
        Inl err \<Rightarrow> (Raised err, h)
      | Inr m \<Rightarrow>
          (let group_address = ex_address call in
           if ex_remove call
           then (case service_exposures m group_address of
                   None \<Rightarrow>
                     (Raised (ServiceValidationError
                        (''Could not find exposure for '' @ quoted group_address @ '' to remove.'')), h)
                 | Some removed_exposure \<Rightarrow>
                     (Returned,
                      store_module
                        (m\<lparr>service_exposures := (service_exposures m)(group_address := None),
                           exposure_ops := exposure_ops m @ [ExposureRemoved removed_exposure]\<rparr>) h))
           else
             (let (m1, h1) =
                    (case service_exposures m group_address of
                       None \<Rightarrow> (m, h)
                     | Some replaced_exposure \<Rightarrow>
                         (m\<lparr>service_exposures := (service_exposures m)(group_address := None),
                            exposure_ops := exposure_ops m @ [ExposureRemoved replaced_exposure]\<rparr>,
                          log_record (WarnReplacingExposure group_address replaced_exposure) h));
                  exposure = create_knx2_exposure call;
                  m2 = m1\<lparr>service_exposures := (service_exposures m1)(group_address \<mapsto> exposure),
                          exposure_ops := exposure_ops m1 @ [ExposureCreated exposure]\<rparr>
              in (Returned,
                  store_module m2 (log_record (DebugRegisteredExposure group_address exposure) h1)))))"

subsection \<open>send and read\<close>

record 'p send_call =
  attr_address :: "string list"
  attr_payload :: "'p py_value"
  attr_type :: "string option"
  attr_response :: bool

text \<open>
  The constructor of \<open>DPTBinary\<close> in the bus library: the value has to fit the six bits
  of the APCI octet, a larger one raises \<open>ConversionError\<close>. (Without a type the
  service's schema admits non-negative ints and lists of them only.)
\<close>

definition APCI_BITMASK :: int where
  "APCI_BITMASK = 63"

definition dpt_binary_init :: "int \<Rightarrow> exc + 'p dpt" where
  "dpt_binary_init n =
     (if APCI_BITMASK < n then Inl (ConversionError ''Could not init DPTBinary'')
      else Inr (DPTBinary n))"

text \<open>
  The two last branches of the payload selection: \<open>DPTBinary(attr_payload)\<close> when
  \<open>isinstance(attr_payload, int)\<close>, \<open>DPTArray(attr_payload)\<close> otherwise. They are
  outside the \<open>try\<close> block, so the constructor's exception leaves the service as it is.
\<close>

fun raw_payload :: "'p py_value \<Rightarrow> exc + 'p dpt" where
  "raw_payload (PyInt n) = dpt_binary_init n"
| "raw_payload (PyOther s) = Inr (DPTArray s)"

text \<open>
  The payload of \<open>service_send_to_knx2_bus\<close>: with a type, the transcoder's encoding,
  where an unknown type and a \<open>ConversionError\<close> become a \<open>ServiceValidationError\<close>
  and any other exception passes through; without a type, the raw payload.
\<close>

definition send_payload ::
  "(string \<Rightarrow> ('p, 'v) transcoder option) \<Rightarrow> 'p send_call \<Rightarrow> exc + 'p dpt" where
  "send_payload parse_transcoder call =
     (case attr_type call of
        Some ty \<Rightarrow>
          (case parse_transcoder ty of
             None \<Rightarrow> Inl (ServiceValidationError (''Invalid type for knx2.send service: '' @ ty))
           | Some transcoder \<Rightarrow>
               (case to_knx2 transcoder (attr_payload call) of
                  Inl (ConversionError msg) \<Rightarrow>
                    Inl (ServiceValidationError (''Invalid payload for knx2.send service: '' @ msg))
                | Inl err \<Rightarrow> Inl err
                | Inr p \<Rightarrow> Inr p))
      | None \<Rightarrow> raw_payload (attr_payload call))"

text \<open>A telegram built by a service; its direction is the bus library's default.\<close>

definition service_telegram ::
  "('p, 'v, 'e) knx2_module \<Rightarrow> address \<Rightarrow> 'p apci \<Rightarrow> 'p telegram" where
  "service_telegram m dest p =
     \<lparr>destination_address = dest,
      source_address = xknx_current_address m,
      direction = Outgoing,
      payload = p\<rparr>"

text \<open>The loop \<open>for address in ...: await knx2_module.xknx.telegrams.put(telegram)\<close>.\<close>

fun put_telegrams ::
  "(string \<Rightarrow> address) \<Rightarrow> 'p apci \<Rightarrow> string list \<Rightarrow> ('p, 'v, 'e) knx2_module \<Rightarrow>
     ('p, 'v, 'e) knx2_module" where
  "put_telegrams parse_device_group_address p [] m = m"
| "put_telegrams parse_device_group_address p (address # rest) m =
     put_telegrams parse_device_group_address p rest
       (m\<lparr>xknx_telegrams := xknx_telegrams m @
            [service_telegram m (parse_device_group_address address) p]\<rparr>)"

definition service_send_to_knx2_bus ::
  "(string \<Rightarrow> ('p, 'v) transcoder option) \<Rightarrow> (string \<Rightarrow> address) \<Rightarrow>
     'p send_call \<Rightarrow> ('p, 'v, 'e) hass \<Rightarrow> outcome \<times> ('p, 'v, 'e) hass" where
  "service_send_to_knx2_bus parse_transcoder parse_device_group_address call h =
     (case get_knx2_module h of
        Inl err \<Rightarrow> (Raised err, h)
      | Inr m \<Rightarrow>
          (case send_payload parse_transcoder call of
             Inl err \<Rightarrow> (Raised err, h)
           | Inr p \<Rightarrow>
               (Returned,
                store_module
                  (put_telegrams parse_device_group_address
                     (if attr_response call then GroupValueResponse (Some p)
                      else GroupValueWrite (Some p))
                     (attr_address call) m) h)))"

definition service_read_to_knx2_bus ::
  "(string \<Rightarrow> address) \<Rightarrow> string list \<Rightarrow> ('p, 'v, 'e) hass \<Rightarrow> outcome \<times> ('p, 'v, 'e) hass" where
  "service_read_to_knx2_bus parse_device_group_address addresses h =
     (case get_knx2_module h of
        Inl err \<Rightarrow> (Raised err, h)
      | Inr m \<Rightarrow>
          (Returned,
           store_module (put_telegrams parse_device_group_address GroupValueRead addresses m) h))"

text \<open>
  \<open>service_reload_integration\<close>; reloading the config entry is the host's work and a
  parameter.
\<close>

definition service_reload_integration ::
  "(('p, 'v, 'e) hass \<Rightarrow> ('p, 'v, 'e) hass) \<Rightarrow> ('p, 'v, 'e) hass \<Rightarrow>
     outcome \<times> ('p, 'v, 'e) hass" where
  "service_reload_integration async_reload h =
     (case get_knx2_module h of
        Inl err \<Rightarrow> (Raised err, h)
      | Inr m \<Rightarrow> (Returned, async_fire ReloadedEvent (async_reload h)))"

section \<open>Websocket commands\<close>

datatype ws_error_code = ERR_HOME_ASSISTANT_ERROR

datatype 'r ws_sent = SendError int ws_error_code string | SendResult int 'r

record ws_msg =
  msg_id :: int
  msg_type :: string

definition send_not_loaded_error :: "'r ws_sent list \<Rightarrow> int \<Rightarrow> 'r ws_sent list" where
  "send_not_loaded_error connection i =
     connection @ [SendError i ERR_HOME_ASSISTANT_ERROR ''KNX2 integration not loaded.'']"

text \<open>
  The decorator \<open>provide_knx2\<close>: the wrapped handler (the coroutine and the plain
  variant have the same body) gets the module, or the connection gets the error and the
  handler is not called.
\<close>

definition provide_knx2 ::
  "(('p, 'v, 'e) hass \<Rightarrow> ('p, 'v, 'e) knx2_module \<Rightarrow> 'r ws_sent list \<Rightarrow> ws_msg \<Rightarrow>
      outcome \<times> ('p, 'v, 'e) hass \<times> 'r ws_sent list) \<Rightarrow>
   ('p, 'v, 'e) hass \<Rightarrow> 'r ws_sent list \<Rightarrow> ws_msg \<Rightarrow>
      outcome \<times> ('p, 'v, 'e) hass \<times> 'r ws_sent list" where
  "provide_knx2 func h connection msg =
     (case data_knx2_module h of
        None \<Rightarrow> (Returned, h, send_not_loaded_error connection (msg_id msg))
      | Some knx2 \<Rightarrow> func h knx2 connection msg)"

section \<open>Restoring the last state of an entity\<close>

definition STATE_ON :: string where "STATE_ON = ''on''"
definition STATE_UNKNOWN :: string where "STATE_UNKNOWN = ''unknown''"
definition STATE_UNAVAILABLE :: string where "STATE_UNAVAILABLE = ''unavailable''"

text \<open>
  An entity with its device: whether the device's remote value is readable, the value it
  holds (\<open>None\<close>: unknown), whether the device has been registered with the bus
  library, and the state persisted for the entity, if any.
\<close>

record 'x entity =
  device_readable :: bool
  device_value :: "'x option"
  device_registered :: bool
  last_state :: "string option"

text \<open>\<open>_Knx2EntityBase.async_added_to_hass\<close>, reached through \<open>super()\<close>.\<close>

definition base_async_added_to_hass :: "'x entity \<Rightarrow> 'x entity" where
  "base_async_added_to_hass e = e\<lparr>device_registered := True\<rparr>"

definition switch_async_added_to_hass :: "bool entity \<Rightarrow> bool entity" where
  "switch_async_added_to_hass e0 =
     (let e = base_async_added_to_hass e0 in
      if \<not> device_readable e then
        (case last_state e of
           None \<Rightarrow> e
         | Some st \<Rightarrow>
             if st \<notin> set [STATE_UNKNOWN, STATE_UNAVAILABLE]
             then e\<lparr>device_value := Some (st = STATE_ON)\<rparr>
             else e)
      else e)"

text \<open>
  Assigning \<open>remote_value.value\<close> goes through the bus library's setter, which
  validates the new value by encoding it with the device's codec and raises
  \<open>ConversionError\<close>, leaving the old value, when the codec rejects it. \<open>accepts\<close> is
  the codec's test.
\<close>

definition set_remote_value :: "('x \<Rightarrow> bool) \<Rightarrow> 'x \<Rightarrow> 'x entity \<Rightarrow> outcome \<times> 'x entity" where
  "set_remote_value accepts v e =
     (if accepts v then (Returned, e\<lparr>device_value := Some v\<rparr>)
      else (Raised (ConversionError ''value rejected by the codec''), e))"

text \<open>The string codecs hold at most 14 characters.\<close>

definition dpt_string_accepts :: "string \<Rightarrow> bool" where
  "dpt_string_accepts s = (length s \<le> 14)"

definition text_async_added_to_hass :: "string entity \<Rightarrow> outcome \<times> string entity" where
  "text_async_added_to_hass e0 =
     (let e = base_async_added_to_hass e0 in
      if \<not> device_readable e then
        (case last_state e of
           None \<Rightarrow> (Returned, e)
         | Some st \<Rightarrow>
             if st \<notin> set [STATE_UNKNOWN, STATE_UNAVAILABLE]
             then set_remote_value dpt_string_accepts st e
             else (Returned, e))
      else (Returned, e))"

text \<open>
  The date entity parses the persisted ISO string; \<open>fromisoformat\<close> is the standard
  library's (a parameter, \<open>None\<close> where it raises \<open>ValueError\<close>, which the method does
  not catch) and \<open>XKNXDate\<close> wraps the date for the device. The date codec encodes the
  years 1990 to 2089; the month and the day of a Python date are always in range.
\<close>

record py_date =
  date_year :: int
  date_month :: int
  date_day :: int

datatype knx_date = XKNXDate py_date

fun dpt_date_accepts :: "knx_date \<Rightarrow> bool" where
  "dpt_date_accepts (XKNXDate d) = (1990 \<le> date_year d \<and> date_year d \<le> 2089)"

definition date_async_added_to_hass ::
  "(string \<Rightarrow> py_date option) \<Rightarrow> knx_date entity \<Rightarrow> outcome \<times> knx_date entity" where
  "date_async_added_to_hass fromisoformat e0 =
     (let e = base_async_added_to_hass e0 in
      case (if \<not> device_readable e then last_state e else None) of
        None \<Rightarrow> (Returned, e)
      | Some st \<Rightarrow>
          if st \<notin> set [STATE_UNKNOWN, STATE_UNAVAILABLE]
          then (case fromisoformat st of
                  None \<Rightarrow> (Raised (ValueError ''Invalid isoformat string''), e)
                | Some d \<Rightarrow> set_remote_value dpt_date_accepts (XKNXDate d) e)
          else (Returned, e))"

text \<open>
  The datetime entity does the same with a datetime, converted to the default time zone
  (\<open>fromisoformat_local\<close> stands for the parse followed by the conversion). The range
  test of the datetime codec belongs to the bus library and is the parameter
  \<open>dpt_datetime_accepts\<close>.
\<close>

datatype 'd knx_datetime = XKNXDateTime 'd

definition datetime_async_added_to_hass ::
  "(string \<Rightarrow> 'd option) \<Rightarrow> ('d knx_datetime \<Rightarrow> bool) \<Rightarrow> 'd knx_datetime entity \<Rightarrow>
     outcome \<times> 'd knx_datetime entity" where
  "datetime_async_added_to_hass fromisoformat_local dpt_datetime_accepts e0 =
     (let e = base_async_added_to_hass e0 in
      case (if \<not> device_readable e then last_state e else None) of
        None \<Rightarrow> (Returned, e)
      | Some st \<Rightarrow>
          if st \<notin> set [STATE_UNKNOWN, STATE_UNAVAILABLE]
          then (case fromisoformat_local st of
                  None \<Rightarrow> (Raised (ValueError ''Invalid isoformat string''), e)
                | Some d \<Rightarrow> set_remote_value dpt_datetime_accepts (XKNXDateTime d) e)
          else (Returned, e))"

text \<open>The binary sensor restores whether or not its state address is readable.\<close>

definition binary_sensor_async_added_to_hass :: "bool entity \<Rightarrow> bool entity" where
  "binary_sensor_async_added_to_hass e0 =
     (let e = base_async_added_to_hass e0 in
      case last_state e of
        None \<Rightarrow> e
      | Some st \<Rightarrow>
          if st \<notin> set [STATE_UNKNOWN, STATE_UNAVAILABLE]
          then e\<lparr>device_value := Some (st = STATE_ON)\<rparr>
          else e)"

section \<open>Concrete inputs\<close>

text \<open>
  Two one-byte codecs that read the same byte differently (unsigned and signed count), a
  filter for the group addresses 1/2/* and the group address 1/2/5.
\<close>

definition tc_ucount :: "(int list, int) transcoder" where
  "tc_ucount =
     \<lparr>tc_name = ''DPTValue1Ucount'',
      from_knx = (\<lambda>d. case d of
                     DPTArray [x] \<Rightarrow> Inr x
                   | _ \<Rightarrow> Inl (CouldNotParseTelegram ''payload invalid'')),
      to_knx = (\<lambda>v. case v of
                     PyInt n \<Rightarrow> if 0 \<le> n \<and> n \<le> 255 then Inr (DPTArray [n])
                                else Inl (ConversionError ''out of range'')
                   | PyOther _ \<Rightarrow> Inl (ConversionError ''not a number''))\<rparr>"

definition tc_count :: "(int list, int) transcoder" where
  "tc_count =
     \<lparr>tc_name = ''DPTValue1Count'',
      from_knx = (\<lambda>d. case d of
                     DPTArray [x] \<Rightarrow> Inr (if 127 < x then x - 256 else x)
                   | _ \<Rightarrow> Inl (CouldNotParseTelegram ''payload invalid'')),
      to_knx = (\<lambda>v. case v of
                     PyInt n \<Rightarrow> if - 128 \<le> n \<and> n \<le> 127 then Inr (DPTArray [n mod 256])
                                else Inl (ConversionError ''out of range'')
                   | PyOther _ \<Rightarrow> Inl (ConversionError ''not a number''))\<rparr>"

definition parse_transcoder_ex :: "string \<Rightarrow> (int list, int) transcoder option" where
  "parse_transcoder_ex ty =
     (if ty = ''1byte_unsigned'' then Some tc_ucount
      else if ty = ''1byte_signed'' then Some tc_count
      else None)"

definition filter_1_2 :: "address \<Rightarrow> bool" where
  "filter_1_2 a = (case a of GroupAddress n \<Rightarrow> n div 256 = 10 | _ \<Rightarrow> False)"

definition ga_1_2_5 :: address where
  "ga_1_2_5 = GroupAddress 2565"

definition parse_ga_ex :: "string \<Rightarrow> address" where
  "parse_ga_ex s =
     (if s = ''1/2/5'' then GroupAddress 2565
      else if s = ''1/2/6'' then GroupAddress 2566
      else InternalGroupAddress s)"

definition module_ex :: "(int list, int, string) knx2_module" where
  "module_ex =
     \<lparr>service_exposures = Map.empty,
      exposure_ops = [],
      address_filter_transcoder = [(filter_1_2, tc_ucount)],
      group_address_transcoder = [ga_1_2_5 \<mapsto> tc_count],
      event_group_addresses = [ga_1_2_5],
      xknx_telegrams = [],
      xknx_current_address = IndividualAddress 4353\<rparr>"

definition hass_ex :: "(int list, int, string) hass" where
  "hass_ex = \<lparr>data_knx2_module = Some module_ex, bus_fired = [], logger = []\<rparr>"

definition hass_not_loaded :: "(int list, int, string) hass" where
  "hass_not_loaded = \<lparr>data_knx2_module = None, bus_fired = [], logger = []\<rparr>"

definition create_exposure_ex :: "string exposure_call \<Rightarrow> string" where
  "create_exposure_ex c = ''expose '' @ ex_config c @ '' on '' @ ex_address c"




definition entity_ex :: "string \<Rightarrow> 'x entity" where
  "entity_ex st =
     \<lparr>device_readable = False,
      device_value = None,
      device_registered = False,
      last_state = Some st\<rparr>"

definition fromisoformat_ex :: "string \<Rightarrow> py_date option" where
  "fromisoformat_ex s =
     (if s = ''2024-02-29'' then Some \<lparr>date_year = 2024, date_month = 2, date_day = 29\<rparr>
      else if s = ''1989-12-31'' then Some \<lparr>date_year = 1989, date_month = 12, date_day = 31\<rparr>
      else None)"

definition dpt_datetime_accepts_ex :: "py_date knx_datetime \<Rightarrow> bool" where
  "dpt_datetime_accepts_ex v =
     (case v of XKNXDateTime d \<Rightarrow> 1900 \<le> date_year d \<and> date_year d \<le> 2155)"

definition write_telegram :: "address \<Rightarrow> int list dpt \<Rightarrow> int list telegram" where
  "write_telegram dest d =
     \<lparr>destination_address = dest,
      source_address = IndividualAddress 4355,
      direction = Incoming,
      payload = GroupValueWrite (Some d)\<rparr>"

section \<open>Properties of the telegram callback\<close>


text \<open>
  C1. When the destination of a received telegram has an entry in the direct
  address-to-transcoder mapping, that transcoder is the one selected, whatever the
  registered filters are: the callback's result does not depend on the filter bindings,
  and a payload that is decoded is decoded by the exact-match transcoder.
\<close>

theorem exact_transcoder_takes_priority:
  assumes "group_address_transcoder self (destination_address t) = Some tc"
  shows "select_transcoder self (destination_address t) = Some tc
    \<and> telegram_received_cb self t h =
        telegram_received_cb (self\<lparr>address_filter_transcoder := fs\<rparr>) t h
    \<and> (\<forall>pv v. write_or_response (payload t) \<and> apci_value (payload t) = Some pv
             \<and> group_addressable (destination_address t) \<and> from_knx tc pv = Inr v \<longrightarrow>
          telegram_received_cb self t h =
            (Returned, async_fire (make_event t (Some (dpt_value pv)) (Some v)) h))"
proof -
  have sel: "select_transcoder self (destination_address t) = Some tc"
    using assms by (simp add: select_transcoder_def)
  have sel': "select_transcoder (self\<lparr>address_filter_transcoder := fs\<rparr>)
                (destination_address t) = Some tc"
    using assms by (simp add: select_transcoder_def)
  show ?thesis
    by (simp add: sel sel' telegram_received_cb_def split: option.split)
qed

theorem exact_transcoder_takes_priority_witness:
  "group_address_transcoder module_ex (destination_address (write_telegram ga_1_2_5 (DPTArray [200])))
      = Some tc_count
   \<and> next_filter_transcoder (address_filter_transcoder module_ex) ga_1_2_5 = Some tc_ucount
   \<and> from_knx tc_ucount (DPTArray [200]) = Inr 200
   \<and> from_knx tc_count (DPTArray [200]) = Inr (- 56)
   \<and> telegram_received_cb module_ex (write_telegram ga_1_2_5 (DPTArray [200])) hass_ex =
       (Returned,
        async_fire (make_event (write_telegram ga_1_2_5 (DPTArray [200]))
                      (Some (PyOther [200])) (Some (- 56))) hass_ex)"
proof -
  let ?t = "write_telegram ga_1_2_5 (DPTArray [200])"
  have bound: "group_address_transcoder module_ex (destination_address ?t) = Some tc_count"
    by (simp add: module_ex_def write_telegram_def)
  have filt: "next_filter_transcoder (address_filter_transcoder module_ex) ga_1_2_5 = Some tc_ucount"
    by (simp add: module_ex_def filter_1_2_def ga_1_2_5_def)
  have u: "from_knx tc_ucount (DPTArray [200]) = Inr 200"
    by (simp add: tc_ucount_def)
  have c: "from_knx tc_count (DPTArray [200]) = Inr (- 56)"
    by (simp add: tc_count_def)
  have elig: "write_or_response (payload ?t) \<and> apci_value (payload ?t) = Some (DPTArray [200])
      \<and> group_addressable (destination_address ?t)"
    by (simp add: write_telegram_def ga_1_2_5_def)
  from exact_transcoder_takes_priority [OF bound, of hass_ex "[]"] elig c
  have "telegram_received_cb module_ex ?t hass_ex =
          (Returned, async_fire (make_event ?t (Some (dpt_value (DPTArray [200]))) (Some (- 56))) hass_ex)"
    by blast
  with bound filt u c show ?thesis by simp
qed








section \<open>Properties of the services\<close>

lemma put_telegrams_eq:
  "put_telegrams pg p addrs m =
     m\<lparr>xknx_telegrams := xknx_telegrams m @ map (\<lambda>a. service_telegram m (pg a) p) addrs\<rparr>"
proof (induction addrs arbitrary: m)
  case Nil
  show ?case by simp
next
  case (Cons a addrs)
  show ?case by (simp add: Cons.IH service_telegram_def)
qed

text \<open>
  C5, as stated: every send call without a type and with an int payload queues one
  telegram per address carrying \<open>DPTBinary\<close> of the payload. It fails for the payload
  64, which the schema admits: the constructor raises \<open>ConversionError\<close>, the service
  does not catch it and nothing is queued.
\<close>

theorem send_without_type_counterexample:
  "\<not> (data_knx2_module hass_ex = Some module_ex
       \<and> attr_type \<lparr>attr_address = [''1/2/5''], attr_payload = PyInt 64,
                    attr_type = None, attr_response = False\<rparr> = None
       \<longrightarrow>
       service_send_to_knx2_bus parse_transcoder_ex parse_ga_ex
         \<lparr>attr_address = [''1/2/5''], attr_payload = PyInt 64,
          attr_type = None, attr_response = False\<rparr> hass_ex =
         (Returned,
          hass_ex\<lparr>data_knx2_module := Some
            (module_ex\<lparr>xknx_telegrams :=
               [\<lparr>destination_address = GroupAddress 2565, source_address = IndividualAddress 4353,
                 direction = Outgoing, payload = GroupValueWrite (Some (DPTBinary 64))\<rparr>]\<rparr>)\<rparr>))
   \<and> service_send_to_knx2_bus parse_transcoder_ex parse_ga_ex
         \<lparr>attr_address = [''1/2/5''], attr_payload = PyInt 64,
          attr_type = None, attr_response = False\<rparr> hass_ex =
         (Raised (ConversionError ''Could not init DPTBinary''), hass_ex)"
  by (simp add: service_send_to_knx2_bus_def send_payload_def get_knx2_module_def
        dpt_binary_init_def APCI_BITMASK_def hass_ex_def)

text \<open>
  C5, amended: a send call without a type encodes an int payload between 0 and 63 as
  \<open>DPTBinary\<close> and any other (sequence) payload as \<open>DPTArray\<close>, and appends to the
  outgoing queue one telegram per address of the address list, in order, each carrying
  that payload \<open>p\<close>.
\<close>

theorem send_without_type:
  assumes "data_knx2_module h = Some m"
    and "attr_type call = None"
    and "(\<exists>n. attr_payload call = PyInt n \<and> 0 \<le> n \<and> n \<le> 63 \<and> p = DPTBinary n)
         \<or> (\<exists>s. attr_payload call = PyOther s \<and> p = DPTArray s)"
  shows "send_payload pt call = Inr p
    \<and> service_send_to_knx2_bus pt pg call h =
        (Returned,
         h\<lparr>data_knx2_module := Some
             (m\<lparr>xknx_telegrams := xknx_telegrams m @
                  map (\<lambda>a. \<lparr>destination_address = pg a,
                             source_address = xknx_current_address m,
                             direction = Outgoing,
                             payload = (if attr_response call then GroupValueResponse (Some p)
                                        else GroupValueWrite (Some p))\<rparr>)
                      (attr_address call)\<rparr>)\<rparr>)"
proof -
  have enc: "send_payload pt call = Inr p"
    using assms(2,3)
    by (auto simp add: send_payload_def dpt_binary_init_def APCI_BITMASK_def)
  show ?thesis
    using assms(1)
    by (simp add: enc service_send_to_knx2_bus_def get_knx2_module_def store_module_def
          put_telegrams_eq service_telegram_def)
qed

theorem send_without_type_witness:
  "data_knx2_module hass_ex = Some module_ex
   \<and> service_send_to_knx2_bus parse_transcoder_ex parse_ga_ex
       \<lparr>attr_address = [''1/2/5'', ''1/2/6''], attr_payload = PyInt 1,
        attr_type = None, attr_response = False\<rparr> hass_ex =
       (Returned,
        hass_ex\<lparr>data_knx2_module := Some
          (module_ex\<lparr>xknx_telegrams :=
             [\<lparr>destination_address = GroupAddress 2565, source_address = IndividualAddress 4353,
               direction = Outgoing, payload = GroupValueWrite (Some (DPTBinary 1))\<rparr>,
              \<lparr>destination_address = GroupAddress 2566, source_address = IndividualAddress 4353,
               direction = Outgoing, payload = GroupValueWrite (Some (DPTBinary 1))\<rparr>]\<rparr>)\<rparr>)
   \<and> service_send_to_knx2_bus parse_transcoder_ex parse_ga_ex
       \<lparr>attr_address = [''1/2/6''], attr_payload = PyOther [1, 2],
        attr_type = None, attr_response = True\<rparr> hass_ex =
       (Returned,
        hass_ex\<lparr>data_knx2_module := Some
          (module_ex\<lparr>xknx_telegrams :=
             [\<lparr>destination_address = GroupAddress 2566, source_address = IndividualAddress 4353,
               direction = Outgoing, payload = GroupValueResponse (Some (DPTArray [1, 2]))\<rparr>]\<rparr>)\<rparr>)"
proof -
  let ?c1 = "\<lparr>attr_address = [''1/2/5'', ''1/2/6''], attr_payload = PyInt 1,
              attr_type = None, attr_response = False\<rparr> :: int list send_call"
  let ?c2 = "\<lparr>attr_address = [''1/2/6''], attr_payload = PyOther [1, 2],
              attr_type = None, attr_response = True\<rparr> :: int list send_call"
  have a: "data_knx2_module hass_ex = Some module_ex" by (simp add: hass_ex_def)
  have b1: "attr_type ?c1 = None" and b2: "attr_type ?c2 = None" by simp_all
  have p1: "(\<exists>n. attr_payload ?c1 = PyInt n \<and> 0 \<le> n \<and> n \<le> 63 \<and> DPTBinary 1 = DPTBinary n)
            \<or> (\<exists>s. attr_payload ?c1 = PyOther s \<and> DPTBinary 1 = DPTArray s)"
    by simp
  have p2: "(\<exists>n. attr_payload ?c2 = PyInt n \<and> 0 \<le> n \<and> n \<le> 63 \<and> DPTArray [1, 2] = DPTBinary n)
            \<or> (\<exists>s. attr_payload ?c2 = PyOther s \<and> DPTArray [1, 2] = DPTArray s)"
    by simp
  have q: "xknx_telegrams module_ex = []" "xknx_current_address module_ex = IndividualAddress 4353"
    by (simp_all add: module_ex_def)
  from send_without_type
         [where h = hass_ex and m = module_ex and call = ?c1 and p = "DPTBinary 1"
            and pt = parse_transcoder_ex and pg = parse_ga_ex, OF a b1 p1]
       send_without_type
         [where h = hass_ex and m = module_ex and call = ?c2 and p = "DPTArray [1, 2]"
            and pt = parse_transcoder_ex and pg = parse_ga_ex, OF a b2 p2]
       a
  show ?thesis by (simp add: q parse_ga_ex_def)
qed

text \<open>
  What a send call with a type does. A type that names no transcoder raises a
  \<open>ServiceValidationError\<close>; a type that names one raises the \<open>AttributeError\<close> of
  the call of \<open>to_knx2\<close>, which the \<open>except ConversionError\<close> clause does not catch.
  Neither queues a telegram.
\<close>

lemma send_with_unknown_type:
  assumes "data_knx2_module h = Some m"
    and "attr_type call = Some ty"
    and "pt ty = None"
  shows "service_send_to_knx2_bus pt pg call h =
           (Raised (ServiceValidationError (''Invalid type for knx2.send service: '' @ ty)), h)"
  using assms
  by (simp add: send_payload_def service_send_to_knx2_bus_def get_knx2_module_def)

lemma send_with_known_type:
  assumes "data_knx2_module h = Some m"
    and "attr_type call = Some ty"
    and "pt ty = Some tc"
  shows "service_send_to_knx2_bus pt pg call h = (Raised (AttributeError ''to_knx2''), h)"
  using assms
  by (simp add: send_payload_def service_send_to_knx2_bus_def get_knx2_module_def to_knx2_def)

text \<open>
  C6. The claim: a send call whose type names no transcoder, or whose payload the
  transcoder cannot encode, raises a validation error and queues nothing. The code does
  not do the second: for the type \<open>1byte_unsigned\<close> and the payload 300, which the codec
  rejects with a \<open>ConversionError\<close>, the service raises \<open>AttributeError\<close>, because it
  calls \<open>to_knx2\<close> where the codec's method is \<open>to_knx\<close>. The state is unchanged.
\<close>

theorem send_unencodable_payload_raises_attribute_error:
  "parse_transcoder_ex ''1byte_unsigned'' = Some tc_ucount
   \<and> to_knx tc_ucount (PyInt 300) = Inl (ConversionError ''out of range'')
   \<and> service_send_to_knx2_bus parse_transcoder_ex parse_ga_ex
       \<lparr>attr_address = [''1/2/5''], attr_payload = PyInt 300,
        attr_type = Some ''1byte_unsigned'', attr_response = False\<rparr> hass_ex =
       (Raised (AttributeError ''to_knx2''), hass_ex)"
proof -
  have a: "data_knx2_module hass_ex = Some module_ex" by (simp add: hass_ex_def)
  have p: "parse_transcoder_ex ''1byte_unsigned'' = Some tc_ucount"
    by (simp add: parse_transcoder_ex_def)
  have e: "to_knx tc_ucount (PyInt 300) = Inl (ConversionError ''out of range'')"
    by (simp add: tc_ucount_def)
  from send_with_known_type
         [where h = hass_ex and m = module_ex and pt = parse_transcoder_ex and pg = parse_ga_ex
            and ty = "''1byte_unsigned''" and tc = tc_ucount
            and call = "\<lparr>attr_address = [''1/2/5''], attr_payload = PyInt 300,
                         attr_type = Some ''1byte_unsigned'', attr_response = False\<rparr>", OF a _ p]
       p e
  show ?thesis by simp
qed

text \<open>
  C7. While the module is not loaded, each of the five services raises the not-loaded
  \<open>HomeAssistantError\<close> and leaves the state untouched, and a websocket command wrapped
  by \<open>provide_knx2\<close> sends the not-loaded error on the connection without calling its
  handler or touching the state.
\<close>

theorem not_loaded_operations_fail:
  assumes "data_knx2_module h = None"
  shows "service_send_to_knx2_bus pt pg send_call h =
           (Raised (HomeAssistantError ''KNX2 entry not loaded''), h)
    \<and> service_read_to_knx2_bus pg addresses h =
           (Raised (HomeAssistantError ''KNX2 entry not loaded''), h)
    \<and> service_event_register_modify pt pg event_call h =
           (Raised (HomeAssistantError ''KNX2 entry not loaded''), h)
    \<and> service_exposure_register_modify create exposure_call h =
           (Raised (HomeAssistantError ''KNX2 entry not loaded''), h)
    \<and> service_reload_integration async_reload h =
           (Raised (HomeAssistantError ''KNX2 entry not loaded''), h)
    \<and> provide_knx2 func h connection msg =
           (Returned, h,
            connection @ [SendError (msg_id msg) ERR_HOME_ASSISTANT_ERROR
                            ''KNX2 integration not loaded.''])"
  using assms
  by (simp add: service_send_to_knx2_bus_def service_read_to_knx2_bus_def
        service_event_register_modify_def service_exposure_register_modify_def
        service_reload_integration_def provide_knx2_def get_knx2_module_def
        send_not_loaded_error_def)

theorem not_loaded_operations_fail_witness:
  "data_knx2_module hass_not_loaded = None
   \<and> service_read_to_knx2_bus parse_ga_ex [''1/2/5''] hass_not_loaded =
       (Raised (HomeAssistantError ''KNX2 entry not loaded''), hass_not_loaded)
   \<and> service_event_register_modify parse_transcoder_ex parse_ga_ex
       \<lparr>er_address = [''1/2/5''], er_type = None, er_remove = True\<rparr> hass_not_loaded =
       (Raised (HomeAssistantError ''KNX2 entry not loaded''), hass_not_loaded)
   \<and> provide_knx2 (\<lambda>h knx2 c m. (Returned, h, c @ [SendResult (msg_id m) True]))
       hass_not_loaded [] \<lparr>msg_id = 7, msg_type = ''knx2/info''\<rparr> =
       (Returned, hass_not_loaded,
        [SendError 7 ERR_HOME_ASSISTANT_ERROR ''KNX2 integration not loaded.''])"
proof -
  have a: "data_knx2_module hass_not_loaded = None" by (simp add: hass_not_loaded_def)
  from not_loaded_operations_fail
         [OF a, of parse_transcoder_ex parse_ga_ex
            "\<lparr>attr_address = [''1/2/5''], attr_payload = PyInt 1,
              attr_type = None, attr_response = False\<rparr>"
            "[''1/2/5'']"
            "\<lparr>er_address = [''1/2/5''], er_type = None, er_remove = True\<rparr>"
            create_exposure_ex
            "\<lparr>ex_address = ''1/2/5'', ex_remove = False, ex_config = ''sensor.new''\<rparr>"
            "\<lambda>h. h"
            "\<lambda>h knx2 c m. (Returned, h, c @ [SendResult (msg_id m) True])" "[]"
            "\<lparr>msg_id = 7, msg_type = ''knx2/info''\<rparr>"] a
  show ?thesis by simp
qed

subsection \<open>event_register\<close>

lemma filter_absent:
  "x \<notin> set l \<Longrightarrow> filter (\<lambda>a. a \<noteq> x) l = l"
  by (induction l) auto

lemma remove1_distinct_filter:
  "distinct l \<Longrightarrow> remove1 x l = filter (\<lambda>a. a \<noteq> x) l"
  by (induction l) (auto simp add: filter_absent)

text \<open>
  What the remove loop does to the module when the subscription list has no duplicates:
  all listed addresses leave the list and the direct mapping, nothing else changes.
\<close>

lemma remove_event_addresses_fst:
  "distinct (event_group_addresses m) \<Longrightarrow>
     event_group_addresses (fst (remove_event_addresses gas m h)) =
       filter (\<lambda>a. a \<notin> set gas) (event_group_addresses m)
     \<and> group_address_transcoder (fst (remove_event_addresses gas m h)) =
       (\<lambda>a. if a \<in> set gas then None else group_address_transcoder m a)
     \<and> service_exposures (fst (remove_event_addresses gas m h)) = service_exposures m
     \<and> exposure_ops (fst (remove_event_addresses gas m h)) = exposure_ops m
     \<and> address_filter_transcoder (fst (remove_event_addresses gas m h)) = address_filter_transcoder m
     \<and> xknx_telegrams (fst (remove_event_addresses gas m h)) = xknx_telegrams m
     \<and> xknx_current_address (fst (remove_event_addresses gas m h)) = xknx_current_address m"
proof (induction gas arbitrary: m h)
  case Nil
  show ?case by simp
next
  case (Cons ga gas)
  let ?l = "event_group_addresses m"
  let ?m1 = "if ga \<in> set ?l then m\<lparr>event_group_addresses := remove1 ga ?l\<rparr> else m"
  let ?h1 = "if ga \<in> set ?l then h else log_record (WarnCouldNotRemoveEvent ga) h"
  let ?m2 = "case group_address_transcoder ?m1 ga of
               Some _ \<Rightarrow> ?m1\<lparr>group_address_transcoder := (group_address_transcoder ?m1)(ga := None)\<rparr>
             | None \<Rightarrow> ?m1"
  have step: "remove_event_addresses (ga # gas) m h = remove_event_addresses gas ?m2 ?h1"
    by (simp split: option.split)
  have l2: "event_group_addresses ?m2 = filter (\<lambda>a. a \<noteq> ga) ?l"
    using Cons.prems
    by (auto simp add: remove1_distinct_filter filter_absent split: option.split)
  have g2: "group_address_transcoder ?m2 = (group_address_transcoder m)(ga := None)"
    by (auto split: option.split)
  have o2: "service_exposures ?m2 = service_exposures m" "exposure_ops ?m2 = exposure_ops m"
    "address_filter_transcoder ?m2 = address_filter_transcoder m"
    "xknx_telegrams ?m2 = xknx_telegrams m" "xknx_current_address ?m2 = xknx_current_address m"
    by (auto split: option.split)
  have d2: "distinct (event_group_addresses ?m2)"
    using Cons.prems by (simp only: l2 distinct_filter)
  from Cons.IH [OF d2, of ?h1] show ?case
    by (simp only: step l2 g2 o2) (auto simp add: fun_eq_iff intro: filter_cong)
qed

lemma add_event_addresses_distinct:
  "distinct (event_group_addresses m) \<Longrightarrow>
     distinct (event_group_addresses (fst (add_event_addresses gas m h)))"
  by (induction gas arbitrary: m h) auto

lemma add_event_addresses_keeps_transcoders:
  "group_address_transcoder (fst (add_event_addresses gas m h)) = group_address_transcoder m"
  by (induction gas arbitrary: m h) auto

text \<open>
  The subscription list starts empty (\<open>group_addresses=[]\<close> in
  \<open>register_event_callback\<close>) and only this service changes it; the service keeps it
  free of duplicates.
\<close>

lemma event_register_keeps_distinct:
  assumes "data_knx2_module h = Some m"
    and "distinct (event_group_addresses m)"
  shows "\<exists>m' h'. service_event_register_modify pt pg call h = (Returned, h')
     \<and> data_knx2_module h' = Some m' \<and> distinct (event_group_addresses m')"
proof (cases "er_remove call")
  case True
  let ?r = "remove_event_addresses (map pg (er_address call)) m h"
  have "service_event_register_modify pt pg call h = (Returned, store_module (fst ?r) (snd ?r))"
    using assms(1) True
    by (simp add: service_event_register_modify_def get_knx2_module_def split_beta Let_def)
  moreover have "distinct (event_group_addresses (fst ?r))"
    using remove_event_addresses_fst [OF assms(2), of "map pg (er_address call)" h] assms(2)
    by simp
  ultimately show ?thesis by (simp add: store_module_def)
next
  case False
  obtain m1 where run: "service_event_register_modify pt pg call h =
      (Returned, store_module (fst (add_event_addresses (map pg (er_address call)) m1 h))
                   (snd (add_event_addresses (map pg (er_address call)) m1 h)))"
    and same: "event_group_addresses m1 = event_group_addresses m"
    using assms(1) False
    by (auto simp add: service_event_register_modify_def get_knx2_module_def split_beta Let_def
          split: option.split)
  from same assms(2) have "distinct (event_group_addresses m1)" by simp
  from add_event_addresses_distinct [OF this, of "map pg (er_address call)" h] run
  show ?thesis by (simp add: store_module_def)
qed

text \<open>
  C8. An event_register call with remove set, on a subscription list without duplicates,
  returns normally; afterwards no listed group address is in the callback's subscription
  list and none has an entry in the direct address-to-transcoder mapping. The other
  addresses and entries stay as they were.
\<close>

theorem event_register_remove:
  assumes "data_knx2_module h = Some m"
    and "er_remove call"
    and "distinct (event_group_addresses m)"
  shows "\<exists>m' h'. service_event_register_modify pt pg call h = (Returned, h')
     \<and> data_knx2_module h' = Some m'
     \<and> event_group_addresses m' =
         filter (\<lambda>a. a \<notin> pg ` set (er_address call)) (event_group_addresses m)
     \<and> group_address_transcoder m' =
         (\<lambda>a. if a \<in> pg ` set (er_address call) then None else group_address_transcoder m a)
     \<and> (\<forall>s \<in> set (er_address call).
           pg s \<notin> set (event_group_addresses m') \<and> group_address_transcoder m' (pg s) = None)"
proof -
  let ?gas = "map pg (er_address call)"
  let ?r = "remove_event_addresses ?gas m h"
  have run: "service_event_register_modify pt pg call h = (Returned, store_module (fst ?r) (snd ?r))"
    using assms(1,2)
    by (simp add: service_event_register_modify_def get_knx2_module_def split_beta Let_def)
  have stored: "data_knx2_module (store_module (fst ?r) (snd ?r)) = Some (fst ?r)"
    by (simp add: store_module_def)
  note f = remove_event_addresses_fst [OF assms(3), of ?gas h]
  have l: "event_group_addresses (fst ?r) =
             filter (\<lambda>a. a \<notin> pg ` set (er_address call)) (event_group_addresses m)"
    using f by simp
  have g: "group_address_transcoder (fst ?r) =
             (\<lambda>a. if a \<in> pg ` set (er_address call) then None else group_address_transcoder m a)"
    using f by simp
  have "\<forall>s \<in> set (er_address call).
          pg s \<notin> set (event_group_addresses (fst ?r)) \<and> group_address_transcoder (fst ?r) (pg s) = None"
    by (simp add: l g)
  with run stored l g show ?thesis by blast
qed

theorem event_register_remove_witness:
  "distinct (event_group_addresses module_ex)
   \<and> parse_ga_ex ''1/2/5'' \<in> set (event_group_addresses module_ex)
   \<and> group_address_transcoder module_ex (parse_ga_ex ''1/2/5'') = Some tc_count
   \<and> (\<exists>m' h'. service_event_register_modify parse_transcoder_ex parse_ga_ex
                 \<lparr>er_address = [''1/2/5''], er_type = None, er_remove = True\<rparr> hass_ex =
                 (Returned, h')
         \<and> data_knx2_module h' = Some m'
         \<and> parse_ga_ex ''1/2/5'' \<notin> set (event_group_addresses m')
         \<and> group_address_transcoder m' (parse_ga_ex ''1/2/5'') = None)"
proof -
  let ?call = "\<lparr>er_address = [''1/2/5''], er_type = None, er_remove = True\<rparr>"
  have a: "data_knx2_module hass_ex = Some module_ex" by (simp add: hass_ex_def)
  have b: "er_remove ?call" by simp
  have c: "distinct (event_group_addresses module_ex)" by (simp add: module_ex_def)
  have d: "parse_ga_ex ''1/2/5'' \<in> set (event_group_addresses module_ex)"
    by (simp add: module_ex_def parse_ga_ex_def ga_1_2_5_def)
  have e: "group_address_transcoder module_ex (parse_ga_ex ''1/2/5'') = Some tc_count"
    by (simp add: module_ex_def parse_ga_ex_def ga_1_2_5_def)
  have s: "''1/2/5'' \<in> set (er_address ?call)" by simp
  from event_register_remove
         [where pt = parse_transcoder_ex and pg = parse_ga_ex and h = hass_ex and m = module_ex
            and call = ?call, OF a b c]
  obtain m' h' where
    "service_event_register_modify parse_transcoder_ex parse_ga_ex ?call hass_ex = (Returned, h')"
    "data_knx2_module h' = Some m'"
    "\<forall>s \<in> set (er_address ?call).
        parse_ga_ex s \<notin> set (event_group_addresses m')
        \<and> group_address_transcoder m' (parse_ga_ex s) = None"
    by blast
  with s c d e show ?thesis by blast
qed

subsection \<open>exposure_register\<close>



section \<open>Properties of the restored state\<close>

text \<open>
  C9, as stated: every entity with a non-readable device and a persisted state other than
  unknown and unavailable adopts that state as the device's value. It fails for a text
  entity whose persisted state has 15 characters: the device's setter rejects the value
  with \<open>ConversionError\<close> and the device stays unknown. It fails in the same way for a
  date entity whose persisted state is a date of 1989, and with \<open>ValueError\<close> for one
  whose persisted state does not parse.
\<close>

theorem restore_state_counterexample:
  "\<not> (\<not> device_readable (entity_ex ''fifteen chars!!'' :: string entity)
       \<and> last_state (entity_ex ''fifteen chars!!'' :: string entity) = Some ''fifteen chars!!''
       \<and> ''fifteen chars!!'' \<noteq> STATE_UNKNOWN \<and> ''fifteen chars!!'' \<noteq> STATE_UNAVAILABLE
       \<longrightarrow>
       device_value (snd (text_async_added_to_hass (entity_ex ''fifteen chars!!'')))
         = Some ''fifteen chars!!'')
   \<and> text_async_added_to_hass (entity_ex ''fifteen chars!!'') =
       (Raised (ConversionError ''value rejected by the codec''),
        (entity_ex ''fifteen chars!!'')\<lparr>device_registered := True\<rparr>)
   \<and> date_async_added_to_hass fromisoformat_ex (entity_ex ''1989-12-31'') =
       (Raised (ConversionError ''value rejected by the codec''),
        (entity_ex ''1989-12-31'')\<lparr>device_registered := True\<rparr>)
   \<and> date_async_added_to_hass fromisoformat_ex (entity_ex ''on'') =
       (Raised (ValueError ''Invalid isoformat string''),
        (entity_ex ''on'')\<lparr>device_registered := True\<rparr>)"
  by (simp add: text_async_added_to_hass_def date_async_added_to_hass_def
        base_async_added_to_hass_def set_remote_value_def dpt_string_accepts_def
        entity_ex_def fromisoformat_ex_def STATE_UNKNOWN_def STATE_UNAVAILABLE_def)

text \<open>
  C9, amended: an entity whose device is not readable and that has a persisted state
  other than unknown and unavailable, which the device's codec accepts, gives its device
  the value of that state when it is added: the switch whether the state is "on"; the
  text the state itself, when it has at most 14 characters; the date and the datetime the
  parsed state, when the string parses and the codec accepts the result (for the date:
  a year from 1990 to 2089). The binary sensor does as the switch, readable or not.
\<close>

theorem restore_state_seeds_device:
  assumes "st \<noteq> STATE_UNKNOWN" and "st \<noteq> STATE_UNAVAILABLE"
  shows "(\<not> device_readable sw \<and> last_state sw = Some st \<longrightarrow>
            switch_async_added_to_hass sw =
              sw\<lparr>device_registered := True, device_value := Some (st = STATE_ON)\<rparr>)
    \<and> (\<not> device_readable tx \<and> last_state tx = Some st \<and> length st \<le> 14 \<longrightarrow>
            text_async_added_to_hass tx =
              (Returned, tx\<lparr>device_registered := True, device_value := Some st\<rparr>))
    \<and> (\<not> device_readable dt \<and> last_state dt = Some st \<and> fromisoformat st = Some day
          \<and> 1990 \<le> date_year day \<and> date_year day \<le> 2089 \<longrightarrow>
            date_async_added_to_hass fromisoformat dt =
              (Returned, dt\<lparr>device_registered := True, device_value := Some (XKNXDate day)\<rparr>))
    \<and> (\<not> device_readable dtm \<and> last_state dtm = Some st \<and> fromisoformat_local st = Some tm
          \<and> dpt_datetime_accepts (XKNXDateTime tm) \<longrightarrow>
            datetime_async_added_to_hass fromisoformat_local dpt_datetime_accepts dtm =
              (Returned, dtm\<lparr>device_registered := True, device_value := Some (XKNXDateTime tm)\<rparr>))
    \<and> (last_state bs = Some st \<longrightarrow>
            binary_sensor_async_added_to_hass bs =
              bs\<lparr>device_registered := True, device_value := Some (st = STATE_ON)\<rparr>)"
  using assms
  by (simp add: switch_async_added_to_hass_def text_async_added_to_hass_def
        date_async_added_to_hass_def datetime_async_added_to_hass_def
        binary_sensor_async_added_to_hass_def base_async_added_to_hass_def
        set_remote_value_def dpt_string_accepts_def)

theorem restore_state_seeds_device_witness:
  "''on'' \<noteq> STATE_UNKNOWN \<and> ''on'' \<noteq> STATE_UNAVAILABLE
   \<and> device_value (switch_async_added_to_hass (entity_ex ''on'')) = Some True
   \<and> text_async_added_to_hass (entity_ex ''on'') =
       (Returned, (entity_ex ''on'')\<lparr>device_registered := True, device_value := Some ''on''\<rparr>)
   \<and> device_value (binary_sensor_async_added_to_hass (entity_ex ''on'')) = Some True
   \<and> ''2024-02-29'' \<noteq> STATE_UNKNOWN \<and> ''2024-02-29'' \<noteq> STATE_UNAVAILABLE
   \<and> fromisoformat_ex ''2024-02-29'' = Some \<lparr>date_year = 2024, date_month = 2, date_day = 29\<rparr>
   \<and> date_async_added_to_hass fromisoformat_ex (entity_ex ''2024-02-29'') =
       (Returned,
        (entity_ex ''2024-02-29'')
          \<lparr>device_registered := True,
           device_value := Some (XKNXDate \<lparr>date_year = 2024, date_month = 2, date_day = 29\<rparr>)\<rparr>)
   \<and> datetime_async_added_to_hass fromisoformat_ex dpt_datetime_accepts_ex
         (entity_ex ''2024-02-29'') =
       (Returned,
        (entity_ex ''2024-02-29'')
          \<lparr>device_registered := True,
           device_value := Some (XKNXDateTime \<lparr>date_year = 2024, date_month = 2, date_day = 29\<rparr>)\<rparr>)"
proof -
  let ?d = "\<lparr>date_year = 2024, date_month = 2, date_day = 29\<rparr>"
  have a: "''on'' \<noteq> STATE_UNKNOWN" and b: "''on'' \<noteq> STATE_UNAVAILABLE"
    by (simp_all add: STATE_UNKNOWN_def STATE_UNAVAILABLE_def)
  have c: "''2024-02-29'' \<noteq> STATE_UNKNOWN" and d: "''2024-02-29'' \<noteq> STATE_UNAVAILABLE"
    by (simp_all add: STATE_UNKNOWN_def STATE_UNAVAILABLE_def)
  have e: "\<not> device_readable (entity_ex s :: 'x entity)"
    "last_state (entity_ex s :: 'x entity) = Some s" for s
    by (simp_all add: entity_ex_def)
  have f: "fromisoformat_ex ''2024-02-29'' = Some ?d"
    by (simp add: fromisoformat_ex_def)
  have g: "dpt_datetime_accepts_ex (XKNXDateTime ?d)"
    by (simp add: dpt_datetime_accepts_ex_def)
  have on: "(''on'' = STATE_ON) = True" by (simp add: STATE_ON_def)
  from restore_state_seeds_device
         [OF a b, of "entity_ex ''on''" "entity_ex ''on''" "entity_ex ''on''"
            fromisoformat_ex ?d "entity_ex ''on''" fromisoformat_ex ?d
            dpt_datetime_accepts_ex "entity_ex ''on''"]
  have p1: "device_value (switch_async_added_to_hass (entity_ex ''on'')) = Some True
    \<and> text_async_added_to_hass (entity_ex ''on'') =
        (Returned, (entity_ex ''on'')\<lparr>device_registered := True, device_value := Some ''on''\<rparr>)
    \<and> device_value (binary_sensor_async_added_to_hass (entity_ex ''on'')) = Some True"
    by (simp add: e on)
  from restore_state_seeds_device
         [OF c d, of "entity_ex ''2024-02-29''" "entity_ex ''2024-02-29''"
            "entity_ex ''2024-02-29''" fromisoformat_ex ?d
            "entity_ex ''2024-02-29''" fromisoformat_ex ?d
            dpt_datetime_accepts_ex "entity_ex ''2024-02-29''"]
  have p2: "date_async_added_to_hass fromisoformat_ex (entity_ex ''2024-02-29'') =
       (Returned,
        (entity_ex ''2024-02-29'')\<lparr>device_registered := True, device_value := Some (XKNXDate ?d)\<rparr>)
   \<and> datetime_async_added_to_hass fromisoformat_ex dpt_datetime_accepts_ex
         (entity_ex ''2024-02-29'') =
       (Returned,
        (entity_ex ''2024-02-29'')
          \<lparr>device_registered := True, device_value := Some (XKNXDateTime ?d)\<rparr>)"
    by (simp add: e f g)
  from a b c d f p1 p2 show ?thesis by simp
qed

end
